theory Spec2Isabelle
  imports Main "HOL-Library.Word"
begin

section \<open>Bytes and strings\<close>

text \<open>
  A Go \<open>byte\<close> is an 8-bit word. A Go \<open>string\<close> is a sequence of bytes; HOL's
  \<open>char\<close> is 8 bits wide, so \<open>string\<close> holds exactly the same values and the
  conversion \<open>[]byte(s)\<close> maps each character to its code. Go's \<open>int\<close> is
  modelled by \<open>int\<close>; the conversion \<open>byte(n)\<close> keeps the low eight bits, which
  is \<open>of_int\<close> into \<open>8 word\<close>.
\<close>

type_synonym byte = "8 word"

definition byte_of_char :: "char \<Rightarrow> byte" where
  "byte_of_char c = of_nat (of_char c)"

definition bytes :: "string \<Rightarrow> byte list" where
  "bytes s = map byte_of_char s"

definition byte_of_int :: "int \<Rightarrow> byte" where
  "byte_of_int n = of_int n"

section \<open>The command table (pkg/printer/commands.go)\<close>

definition EOL :: string where
  "EOL = [CHR 0x0A]"

definition HW_INIT :: "byte list" where
  "HW_INIT = [0x1b, 0x40]"

definition CTL_LF :: "byte list" where
  "CTL_LF = [0x0a]"

definition TXT_BOLD_OFF :: "byte list" where
  "TXT_BOLD_OFF = [0x1b, 0x45, 0x00]"

definition TXT_BOLD_ON :: "byte list" where
  "TXT_BOLD_ON = [0x1b, 0x45, 0x01]"

definition TXT_ALIGN_LT :: "byte list" where
  "TXT_ALIGN_LT = [0x1b, 0x61, 0x00]"

definition TXT_ALIGN_CT :: "byte list" where
  "TXT_ALIGN_CT = [0x1b, 0x61, 0x01]"

definition TXT_ALIGN_RT :: "byte list" where
  "TXT_ALIGN_RT = [0x1b, 0x61, 0x02]"

definition PAPER_FULL_CUT :: "byte list" where
  "PAPER_FULL_CUT = [0x1d, 0x56, 0x00]"

definition PAPER_PART_CUT :: "byte list" where
  "PAPER_PART_CUT = [0x1d, 0x56, 0x01]"

definition BARCODE_TXT_BLW :: "byte list" where
  "BARCODE_TXT_BLW = [0x1d, 0x48, 0x02]"

definition BARCODE_FONT_A :: "byte list" where
  "BARCODE_FONT_A = [0x1d, 0x66, 0x00]"

definition BARCODE_UPC_A :: "byte list" where
  "BARCODE_UPC_A = [0x1d, 0x6b, 0x00]"

definition BARCODE_UPC_E :: "byte list" where
  "BARCODE_UPC_E = [0x1d, 0x6b, 0x01]"

definition BARCODE_EAN13 :: "byte list" where
  "BARCODE_EAN13 = [0x1d, 0x6b, 0x02]"

definition BARCODE_EAN8 :: "byte list" where
  "BARCODE_EAN8 = [0x1d, 0x6b, 0x03]"

definition BARCODE_CODE39 :: "byte list" where
  "BARCODE_CODE39 = [0x1d, 0x6b, 0x04]"

definition BARCODE_CODE128 :: "byte list" where
  "BARCODE_CODE128 = [0x1d, 0x6b, 0x49]"

definition QR_MODEL :: "byte list" where
  "QR_MODEL = [0x1d, 0x28, 0x6b, 0x04, 0x00, 0x31, 0x41]"

definition QR_SIZE :: "byte list" where
  "QR_SIZE = [0x1d, 0x28, 0x6b, 0x03, 0x00, 0x31, 0x43]"

definition QR_ERROR :: "byte list" where
  "QR_ERROR = [0x1d, 0x28, 0x6b, 0x03, 0x00, 0x31, 0x45]"

definition QR_STORE_PRE :: "byte list" where
  "QR_STORE_PRE = [0x1d, 0x28, 0x6b]"

definition QR_STORE_POST :: "byte list" where
  "QR_STORE_POST = [0x31, 0x50, 0x30]"

definition QR_PRINT :: "byte list" where
  "QR_PRINT = [0x1d, 0x28, 0x6b, 0x03, 0x00, 0x31, 0x51, 0x30]"

text \<open>
  \<open>TxtCustomSize\<close>: four successive \<open>if\<close> statements overwrite the parameters,
  then the size byte is computed from the overwritten values.
\<close>

definition TxtCustomSize :: "int \<Rightarrow> int \<Rightarrow> byte list" where
  "TxtCustomSize width height =
     (let width = (if width < 1 then 1 else width);
          width = (if width > 8 then 8 else width);
          height = (if height < 1 then 1 else height);
          height = (if height > 8 then 8 else height);
          size = byte_of_int ((width - 1) * 16 + (height - 1))
      in [0x1d, 0x21, size])"

definition BarcodeHeight :: "int \<Rightarrow> byte list" where
  "BarcodeHeight height =
     (let height = (if height < 1 then 1 else height);
          height = (if height > 255 then 255 else height)
      in [0x1d, 0x68, byte_of_int height])"

definition BarcodeWidth :: "int \<Rightarrow> byte list" where
  "BarcodeWidth width =
     (let width = (if width < 2 then 2 else width);
          width = (if width > 6 then 6 else width)
      in [0x1d, 0x77, byte_of_int width])"

section \<open>The command builder (package printer)\<close>

text \<open>
  The builder holds the adapter, the byte buffer, the encoding name and the tracked
  character width. Every builder method mutates the receiver and returns it; the model
  returns the updated record. The adapter's state is the type parameter.
\<close>

record 'a Printer =
  adapter :: 'a
  buffer :: "byte list"
  encoding :: string
  width :: int

definition New :: "'a \<Rightarrow> 'a Printer" where
  "New a = \<lparr>adapter = a, buffer = [], encoding = ''UTF-8'', width = 48\<rparr>"

definition Init :: "'a Printer \<Rightarrow> 'a Printer" where
  "Init p = p\<lparr>buffer := buffer p @ HW_INIT\<rparr>"

definition Text :: "string \<Rightarrow> 'a Printer \<Rightarrow> 'a Printer" where
  "Text content p = p\<lparr>buffer := buffer p @ bytes content\<rparr>"

definition NewLine :: "'a Printer \<Rightarrow> 'a Printer" where
  "NewLine p = p\<lparr>buffer := buffer p @ CTL_LF\<rparr>"

text \<open>The loop of \<open>Feed\<close>: \<open>for i := 0; i < n; i++\<close>, one line feed per round.\<close>

function Feed_loop :: "int \<Rightarrow> int \<Rightarrow> 'a Printer \<Rightarrow> 'a Printer" where
  "Feed_loop i n p =
     (if i < n then Feed_loop (i + 1) n (p\<lparr>buffer := buffer p @ CTL_LF\<rparr>) else p)"
  by pat_completeness auto
termination
  by (relation "measure (\<lambda>(i, n, p). nat (n - i))") auto

declare Feed_loop.simps [simp del]

definition Feed :: "int \<Rightarrow> 'a Printer \<Rightarrow> 'a Printer" where
  "Feed n p = Feed_loop 0 n p"

definition Align :: "string \<Rightarrow> 'a Printer \<Rightarrow> 'a Printer" where
  "Align align p =
     (if align = ''left'' \<or> align = ''lt'' \<or> align = ''LT''
        then p\<lparr>buffer := buffer p @ TXT_ALIGN_LT\<rparr>
      else if align = ''center'' \<or> align = ''ct'' \<or> align = ''CT''
        then p\<lparr>buffer := buffer p @ TXT_ALIGN_CT\<rparr>
      else if align = ''right'' \<or> align = ''rt'' \<or> align = ''RT''
        then p\<lparr>buffer := buffer p @ TXT_ALIGN_RT\<rparr>
      else p)"

definition Bold :: "bool \<Rightarrow> 'a Printer \<Rightarrow> 'a Printer" where
  "Bold on p =
     (if on then p\<lparr>buffer := buffer p @ TXT_BOLD_ON\<rparr>
      else p\<lparr>buffer := buffer p @ TXT_BOLD_OFF\<rparr>)"

definition Size :: "int \<Rightarrow> int \<Rightarrow> 'a Printer \<Rightarrow> 'a Printer" where
  "Size w h p = p\<lparr>buffer := buffer p @ TxtCustomSize w h\<rparr>"

definition Cut :: "bool \<Rightarrow> 'a Printer \<Rightarrow> 'a Printer" where
  "Cut partial p =
     (let p = Feed 3 p
      in if partial then p\<lparr>buffer := buffer p @ PAPER_PART_CUT\<rparr>
         else p\<lparr>buffer := buffer p @ PAPER_FULL_CUT\<rparr>)"

definition Barcode :: "string \<Rightarrow> string \<Rightarrow> int \<Rightarrow> int \<Rightarrow> 'a Printer \<Rightarrow> 'a Printer" where
  "Barcode code barcodeType w h p =
     (let p = p\<lparr>buffer := buffer p @ BARCODE_TXT_BLW\<rparr>;
          p = p\<lparr>buffer := buffer p @ BARCODE_FONT_A\<rparr>;
          p = p\<lparr>buffer := buffer p @ BarcodeHeight h\<rparr>;
          p = p\<lparr>buffer := buffer p @ BarcodeWidth w\<rparr>;
          p = (if barcodeType = ''UPC_A'' \<or> barcodeType = ''UPC-A''
                 then p\<lparr>buffer := buffer p @ BARCODE_UPC_A\<rparr>
               else if barcodeType = ''UPC_E'' \<or> barcodeType = ''UPC-E''
                 then p\<lparr>buffer := buffer p @ BARCODE_UPC_E\<rparr>
               else if barcodeType = ''EAN13''
                 then p\<lparr>buffer := buffer p @ BARCODE_EAN13\<rparr>
               else if barcodeType = ''EAN8''
                 then p\<lparr>buffer := buffer p @ BARCODE_EAN8\<rparr>
               else if barcodeType = ''CODE39''
                 then p\<lparr>buffer := buffer p @ BARCODE_CODE39\<rparr>
               else if barcodeType = ''CODE128''
                 then p\<lparr>buffer := buffer p @ BARCODE_CODE128\<rparr>
               else p\<lparr>buffer := buffer p @ BARCODE_CODE39\<rparr>);
          p = p\<lparr>buffer := buffer p @ bytes code\<rparr>
      in p\<lparr>buffer := buffer p @ [0x00]\<rparr>)"

definition QRErrorL :: int where "QRErrorL = 48"
definition QRErrorM :: int where "QRErrorM = 49"
definition QRErrorQ :: int where "QRErrorQ = 50"
definition QRErrorH :: int where "QRErrorH = 51"
definition QRModel1 :: int where "QRModel1 = 49"
definition QRModel2 :: int where "QRModel2 = 50"

text \<open>
  \<open>QRCodeAdvanced\<close>. The parameter \<open>size\<close> of the source is \<open>sz\<close> here. The
  length \<open>len(data) + 3\<close> is never negative, so Go's truncating \<open>%\<close> and \<open>/\<close> agree
  with \<open>mod\<close> and \<open>div\<close>.
\<close>

definition QRCodeAdvanced :: "string \<Rightarrow> int \<Rightarrow> int \<Rightarrow> int \<Rightarrow> 'a Printer \<Rightarrow> 'a Printer" where
  "QRCodeAdvanced content sz errorLevel model p =
     (let sz = (if sz < 1 then 6 else sz);
          sz = (if sz > 16 then 16 else sz);
          p = p\<lparr>buffer := buffer p @ QR_MODEL\<rparr>;
          p = p\<lparr>buffer := buffer p @ [byte_of_int model, 0x00]\<rparr>;
          p = p\<lparr>buffer := buffer p @ QR_SIZE\<rparr>;
          p = p\<lparr>buffer := buffer p @ [byte_of_int sz]\<rparr>;
          p = p\<lparr>buffer := buffer p @ QR_ERROR\<rparr>;
          p = p\<lparr>buffer := buffer p @ [byte_of_int errorLevel]\<rparr>;
          data = bytes content;
          storeLen = int (length data) + 3;
          pL = byte_of_int (storeLen mod 256);
          pH = byte_of_int (storeLen div 256);
          p = p\<lparr>buffer := buffer p @ QR_STORE_PRE\<rparr>;
          p = p\<lparr>buffer := buffer p @ [pL, pH]\<rparr>;
          p = p\<lparr>buffer := buffer p @ QR_STORE_POST\<rparr>;
          p = p\<lparr>buffer := buffer p @ data\<rparr>
      in p\<lparr>buffer := buffer p @ QR_PRINT\<rparr>)"

definition QRCode :: "string \<Rightarrow> int \<Rightarrow> 'a Printer \<Rightarrow> 'a Printer" where
  "QRCode content sz p = QRCodeAdvanced content sz QRErrorL QRModel2 p"

definition QRCodeWiFi :: "string \<Rightarrow> string \<Rightarrow> string \<Rightarrow> bool \<Rightarrow> 'a Printer \<Rightarrow> 'a Printer" where
  "QRCodeWiFi ssid password authType hidden p =
     (let hiddenStr = (if hidden then ''true'' else ''false'');
          content = ''WIFI:T:'' @ authType @ '';S:'' @ ssid @ '';P:'' @ password
                    @ '';H:'' @ hiddenStr @ '';;''
      in QRCodeAdvanced content 6 QRErrorM QRModel2 p)"

text \<open>
  The WiFi payload as the specification words it:
  \<open>WIFI:T:<auth>;S:<ssid>;P:<password>;H:<true|false>;;\<close>.
\<close>

definition spec_WiFi_payload :: "string \<Rightarrow> string \<Rightarrow> string \<Rightarrow> bool \<Rightarrow> string" where
  "spec_WiFi_payload auth ssid password hidden =
     ''WIFI:T:'' @ auth @ '';S:'' @ ssid @ '';P:'' @ password @ '';H:''
     @ (if hidden then ''true'' else ''false'') @ '';;''"

section \<open>The adapter interface (pkg/adapter/adapter.go)\<close>

text \<open>
  A Go \<open>error\<close> is either a plain message (\<open>fmt.Errorf\<close> without \<open>%w\<close>, or an
  error of a library) or a message wrapping another error (\<open>%w\<close>). A run-time panic
  (nil dereference, index out of range) is not a returned error in Go; the constructor
  \<open>runtimePanic\<close> stands for it, so that a panicking path is a branch of the model.
\<close>

datatype error = errorString string | wrapError string error | runtimePanic string

fun Error :: "error \<Rightarrow> string" where
  "Error (errorString s) = s"
| "Error (wrapError s e) = s"
| "Error (runtimePanic s) = s"

fun is_panic :: "error option \<Rightarrow> bool" where
  "is_panic (Some (runtimePanic m)) = True"
| "is_panic _ = False"

text \<open>
  The interface \<open>Adapter\<close> is a table of five methods on a hidden receiver. The model
  passes the receiver's state (with the part of the outside world it acts on) through
  each method; \<open>None\<close> is the \<open>nil\<close> error.
\<close>

record 'a Adapter =
  Open :: "'a \<Rightarrow> error option \<times> 'a"
  Write :: "byte list \<Rightarrow> 'a \<Rightarrow> error option \<times> 'a"
  Read :: "'a \<Rightarrow> (byte list \<times> error option) \<times> 'a"
  Close :: "'a \<Rightarrow> error option \<times> 'a"
  IsOpen :: "'a \<Rightarrow> bool \<times> 'a"

section \<open>Flush\<close>

text \<open>
  \<open>Flush ad p\<close>: \<open>ad\<close> is the method table of the adapter the builder was made with,
  \<open>adapter p\<close> its state. A panic inside \<open>Open\<close> or \<open>Write\<close> is not caught by
  \<open>Flush\<close>: it leaves \<open>Flush\<close> at once, before the statement that follows the call.
\<close>

definition Flush :: "'a Adapter \<Rightarrow> 'a Printer \<Rightarrow> error option \<times> 'a Printer" where
  "Flush ad p =
     (if length (buffer p) = 0 then (None, p)
      else
        let (isOpen, a) = IsOpen ad (adapter p);
            (openErr, a) = (if \<not> isOpen then Open ad a else (None, a))
        in if is_panic openErr then (openErr, p\<lparr>adapter := a\<rparr>)
           else case openErr of
             Some err \<Rightarrow>
               (Some (wrapError (''failed to open adapter: '' @ Error err) err),
                p\<lparr>adapter := a\<rparr>)
           | None \<Rightarrow>
               let (err, a) = Write ad (buffer p) a
               in if is_panic err then (err, p\<lparr>adapter := a\<rparr>)
                  else (err, p\<lparr>adapter := a, buffer := []\<rparr>))"

text \<open>
  A recording transport: it forwards every call to the adapter it wraps and appends the
  call to a log, so that the calls a builder makes can be observed.
\<close>

datatype call = CallOpen | CallWrite "byte list" | CallRead | CallClose | CallIsOpen

definition recording :: "'a Adapter \<Rightarrow> ('a \<times> call list) Adapter" where
  "recording ad =
     \<lparr>Open = (\<lambda>(a, log). let (e, a') = Open ad a in (e, (a', log @ [CallOpen]))),
      Write = (\<lambda>data (a, log). let (e, a') = Write ad data a in (e, (a', log @ [CallWrite data]))),
      Read = (\<lambda>(a, log). let (r, a') = Read ad a in (r, (a', log @ [CallRead]))),
      Close = (\<lambda>(a, log). let (e, a') = Close ad a in (e, (a', log @ [CallClose]))),
      IsOpen = (\<lambda>(a, log). let (b, a') = IsOpen ad a in (b, (a', log @ [CallIsOpen])))\<rparr>"

section \<open>The console adapter (pkg/adapter/console.go)\<close>

text \<open>
  The receiver has one field, \<open>open\<close> (here \<open>c_open\<close>). What the adapter prints
  goes to standard output, modelled as the list of the strings printed so far.
\<close>

record ConsoleAdapter =
  c_open :: bool

definition string_of_bytes :: "byte list \<Rightarrow> string" where
  "string_of_bytes data = map (\<lambda>b. char_of (unat b)) data"

definition NewConsoleAdapter :: ConsoleAdapter where
  "NewConsoleAdapter = \<lparr>c_open = False\<rparr>"

definition ConsoleAdapter_Open ::
  "ConsoleAdapter \<times> string list \<Rightarrow> error option \<times> (ConsoleAdapter \<times> string list)" where
  "ConsoleAdapter_Open = (\<lambda>(c, out).
     (None, (c\<lparr>c_open := True\<rparr>, out @ [''[ConsoleAdapter] Opened'' @ [CHR 0x0A]])))"

definition ConsoleAdapter_Write ::
  "byte list \<Rightarrow> ConsoleAdapter \<times> string list \<Rightarrow> error option \<times> (ConsoleAdapter \<times> string list)" where
  "ConsoleAdapter_Write data = (\<lambda>(c, out).
     if \<not> c_open c then (Some (errorString ''adapter not open''), (c, out))
     else (None, (c, out @ [''[PRINT] '' @ string_of_bytes data])))"

definition ConsoleAdapter_Read ::
  "ConsoleAdapter \<times> string list \<Rightarrow> (byte list \<times> error option) \<times> (ConsoleAdapter \<times> string list)" where
  "ConsoleAdapter_Read = (\<lambda>(c, out). (([], None), (c, out)))"

definition ConsoleAdapter_Close ::
  "ConsoleAdapter \<times> string list \<Rightarrow> error option \<times> (ConsoleAdapter \<times> string list)" where
  "ConsoleAdapter_Close = (\<lambda>(c, out).
     (None, (c\<lparr>c_open := False\<rparr>, out @ [''[ConsoleAdapter] Closed'' @ [CHR 0x0A]])))"

definition ConsoleAdapter_IsOpen ::
  "ConsoleAdapter \<times> string list \<Rightarrow> bool \<times> (ConsoleAdapter \<times> string list)" where
  "ConsoleAdapter_IsOpen = (\<lambda>(c, out). (c_open c, (c, out)))"

definition ConsoleAdapter_methods :: "(ConsoleAdapter \<times> string list) Adapter" where
  "ConsoleAdapter_methods =
     \<lparr>Open = ConsoleAdapter_Open, Write = ConsoleAdapter_Write, Read = ConsoleAdapter_Read,
      Close = ConsoleAdapter_Close, IsOpen = ConsoleAdapter_IsOpen\<rparr>"

section \<open>The serial adapter (placeholder)\<close>

record SerialAdapter =
  s_port :: string
  baudRate :: int
  s_open :: bool

definition NewSerialAdapter :: "string \<Rightarrow> int \<Rightarrow> SerialAdapter" where
  "NewSerialAdapter port_name baud =
     (let baud = (if baud = 0 then 9600 else baud)
      in \<lparr>s_port = port_name, baudRate = baud, s_open = False\<rparr>)"

definition SerialAdapter_Open :: "SerialAdapter \<Rightarrow> error option \<times> SerialAdapter" where
  "SerialAdapter_Open s = (Some (errorString ''serial adapter not yet implemented''), s)"

definition SerialAdapter_Write :: "byte list \<Rightarrow> SerialAdapter \<Rightarrow> error option \<times> SerialAdapter" where
  "SerialAdapter_Write data s =
     (if \<not> s_open s then (Some (errorString ''adapter not open''), s) else (None, s))"

definition SerialAdapter_Read :: "SerialAdapter \<Rightarrow> (byte list \<times> error option) \<times> SerialAdapter" where
  "SerialAdapter_Read s =
     (if \<not> s_open s then (([], Some (errorString ''adapter not open'')), s)
      else (([], None), s))"

definition SerialAdapter_Close :: "SerialAdapter \<Rightarrow> error option \<times> SerialAdapter" where
  "SerialAdapter_Close s = (None, s\<lparr>s_open := False\<rparr>)"

definition SerialAdapter_IsOpen :: "SerialAdapter \<Rightarrow> bool \<times> SerialAdapter" where
  "SerialAdapter_IsOpen s = (s_open s, s)"

definition SerialAdapter_methods :: "SerialAdapter Adapter" where
  "SerialAdapter_methods =
     \<lparr>Open = SerialAdapter_Open, Write = SerialAdapter_Write, Read = SerialAdapter_Read,
      Close = SerialAdapter_Close, IsOpen = SerialAdapter_IsOpen\<rparr>"

section \<open>The network adapter\<close>

text \<open>
  The connection is made and used through Go's \<open>net\<close> package. Its calls are
  parameters of the model: functions on a state \<open>'w\<close> of the network, a connection
  being named by a number. \<open>conn = None\<close> is the nil connection, \<open>n_open\<close> the field
  \<open>open\<close>. Durations are in nanoseconds; the read deadline is given as the time from
  now. \<open>conn_Read c k\<close> reads into a buffer of \<open>k\<close> bytes and gives the bytes read.
\<close>

record 'w net =
  DialTimeout :: "string \<Rightarrow> string \<Rightarrow> int \<Rightarrow> 'w \<Rightarrow> (error + nat) \<times> 'w"
  conn_Write :: "nat \<Rightarrow> byte list \<Rightarrow> 'w \<Rightarrow> error option \<times> 'w"
  SetReadDeadline :: "nat \<Rightarrow> int \<Rightarrow> 'w \<Rightarrow> 'w"
  conn_Read :: "nat \<Rightarrow> nat \<Rightarrow> 'w \<Rightarrow> (error + byte list) \<times> 'w"
  conn_Close :: "nat \<Rightarrow> 'w \<Rightarrow> error option \<times> 'w"

record NetworkAdapter =
  address :: string
  port :: int
  timeout :: int
  conn :: "nat option"
  n_open :: bool

text \<open>The decimal digits of \<open>%d\<close>.\<close>

function nat_digits :: "nat \<Rightarrow> string" where
  "nat_digits n =
     (if n < 10 then [char_of (48 + n)]
      else nat_digits (n div 10) @ [char_of (48 + n mod 10)])"
  by pat_completeness auto
termination
  by (relation "measure id") auto

declare nat_digits.simps [simp del]

definition Itoa :: "int \<Rightarrow> string" where
  "Itoa i = (if i < 0 then ''-'' @ nat_digits (nat (- i)) else nat_digits (nat i))"

definition NewNetworkAdapter :: "string \<Rightarrow> int \<Rightarrow> NetworkAdapter" where
  "NewNetworkAdapter addr prt =
     (let prt = (if prt = 0 then 9100 else prt)
      in \<lparr>address = addr, port = prt, timeout = 30 * 1000000000, conn = None,
          n_open = False\<rparr>)"

definition NetworkAdapter_Open ::
  "'w net \<Rightarrow> NetworkAdapter \<times> 'w \<Rightarrow> error option \<times> (NetworkAdapter \<times> 'w)" where
  "NetworkAdapter_Open api = (\<lambda>(n, w).
     if n_open n then (None, (n, w))
     else
       let addr = address n @ '':'' @ Itoa (port n)
       in case DialTimeout api ''tcp'' addr (timeout n) w of
            (Inl err, w') \<Rightarrow>
              (Some (errorString (''failed to connect to '' @ addr @ '': '' @ Error err)),
               (n, w'))
          | (Inr c, w') \<Rightarrow> (None, (n\<lparr>conn := Some c, n_open := True\<rparr>, w')))"

definition NetworkAdapter_Write ::
  "'w net \<Rightarrow> byte list \<Rightarrow> NetworkAdapter \<times> 'w \<Rightarrow> error option \<times> (NetworkAdapter \<times> 'w)" where
  "NetworkAdapter_Write api data = (\<lambda>(n, w).
     if \<not> n_open n then (Some (errorString ''adapter not open''), (n, w))
     else case conn n of
            None \<Rightarrow> (Some (runtimePanic ''nil pointer dereference''), (n, w))
          | Some c \<Rightarrow> (let (err, w') = conn_Write api c data w in (err, (n, w'))))"

definition NetworkAdapter_Close ::
  "'w net \<Rightarrow> NetworkAdapter \<times> 'w \<Rightarrow> error option \<times> (NetworkAdapter \<times> 'w)" where
  "NetworkAdapter_Close api = (\<lambda>(n, w).
     if \<not> n_open n then (None, (n, w))
     else case conn n of
            None \<Rightarrow> (Some (runtimePanic ''nil pointer dereference''), (n, w))
          | Some c \<Rightarrow>
              (let (err, w') = conn_Close api c w in (err, (n\<lparr>n_open := False\<rparr>, w'))))"

definition NetworkAdapter_Read ::
  "'w net \<Rightarrow> NetworkAdapter \<times> 'w \<Rightarrow> (byte list \<times> error option) \<times> (NetworkAdapter \<times> 'w)" where
  "NetworkAdapter_Read api = (\<lambda>(n, w).
     if \<not> n_open n then (([], Some (errorString ''adapter not open'')), (n, w))
     else case conn n of
            None \<Rightarrow> (([], Some (runtimePanic ''nil pointer dereference'')), (n, w))
          | Some c \<Rightarrow>
              (let w = SetReadDeadline api c (5 * 1000000000) w
               in case conn_Read api c 1024 w of
                    (Inl err, w) \<Rightarrow> (([], Some err), (n, w))
                  | (Inr bs, w) \<Rightarrow> ((take 1024 bs, None), (n, w))))"

definition NetworkAdapter_IsOpen :: "NetworkAdapter \<times> 'w \<Rightarrow> bool \<times> (NetworkAdapter \<times> 'w)" where
  "NetworkAdapter_IsOpen = (\<lambda>(n, w). (n_open n, (n, w)))"

definition NetworkAdapter_methods :: "'w net \<Rightarrow> (NetworkAdapter \<times> 'w) Adapter" where
  "NetworkAdapter_methods api =
     \<lparr>Open = NetworkAdapter_Open api, Write = NetworkAdapter_Write api,
      Read = NetworkAdapter_Read api, Close = NetworkAdapter_Close api,
      IsOpen = NetworkAdapter_IsOpen\<rparr>"

text \<open>A network on which nothing answers: dialling is refused and every write fails.\<close>

definition down_net :: "unit net" where
  "down_net =
     \<lparr>DialTimeout = (\<lambda>nw addr t w. (Inl (errorString ''connection refused''), w)),
      conn_Write = (\<lambda>c data w. (Some (errorString ''broken pipe''), w)),
      SetReadDeadline = (\<lambda>c t w. w),
      conn_Read = (\<lambda>c k w. (Inl (errorString ''i/o timeout''), w)),
      conn_Close = (\<lambda>c w. (None, w))\<rparr>"

section \<open>The USB adapter (pkg/adapter/usb.go, build with cgo)\<close>

text \<open>
  The adapter drives the device through the library \<open>gousb\<close>. The library's calls are
  parameters of the model: functions on a state \<open>'w\<close> of the USB bus, where contexts,
  devices, interfaces and endpoints are named by numbers. \<open>Endpoints\<close> gives the
  endpoint descriptors of an interface in the order in which the \<open>range\<close> over the
  descriptor map visits them, \<open>release\<close> is the call of the function \<open>done\<close> that
  \<open>DefaultInterface\<close> returned (the field \<open>done\<close> is \<open>u_done\<close> here, \<open>open\<close> is
  \<open>u_open\<close>). The mutex taken by every method has no effect on a single caller and is
  left out.
\<close>

record InterfaceSetting =
  Class :: nat

record InterfaceDesc =
  AltSettings :: "InterfaceSetting list"

record ConfigDesc =
  Interfaces :: "InterfaceDesc list"

record DeviceDesc =
  Configs :: "ConfigDesc list"

datatype EndpointDirection = EndpointDirectionOut | EndpointDirectionIn

record EndpointDesc =
  Direction :: EndpointDirection
  Number :: int

record 'w gousb =
  NewContext :: "'w \<Rightarrow> nat \<times> 'w"
  ctx_Close :: "nat \<Rightarrow> 'w \<Rightarrow> 'w"
  OpenDeviceWithVIDPID :: "nat \<Rightarrow> 16 word \<Rightarrow> 16 word \<Rightarrow> 'w \<Rightarrow> (nat option \<times> error option) \<times> 'w"
  OpenDevices :: "nat \<Rightarrow> (DeviceDesc \<Rightarrow> bool) \<Rightarrow> 'w \<Rightarrow> (nat list \<times> error option) \<times> 'w"
  device_Close :: "nat \<Rightarrow> 'w \<Rightarrow> 'w"
  SetAutoDetach :: "nat \<Rightarrow> bool \<Rightarrow> 'w \<Rightarrow> error option \<times> 'w"
  DefaultInterface :: "nat \<Rightarrow> 'w \<Rightarrow> (error + nat \<times> nat) \<times> 'w"
  Endpoints :: "nat \<Rightarrow> 'w \<Rightarrow> EndpointDesc list"
  intf_OutEndpoint :: "nat \<Rightarrow> int \<Rightarrow> 'w \<Rightarrow> (error + nat) \<times> 'w"
  intf_InEndpoint :: "nat \<Rightarrow> int \<Rightarrow> 'w \<Rightarrow> (error + nat) \<times> 'w"
  outEP_Write :: "nat \<Rightarrow> byte list \<Rightarrow> 'w \<Rightarrow> error option \<times> 'w"
  release :: "nat \<Rightarrow> 'w \<Rightarrow> 'w"

record USBAdapter =
  ctx :: "nat option"
  device :: "nat option"
  intf :: "nat option"
  outEP :: "nat option"
  inEP :: "nat option"
  u_done :: "nat option"
  u_open :: bool
  VendorID :: "16 word"
  ProductID :: "16 word"

definition NewUSBAdapter :: "16 word \<Rightarrow> 16 word \<Rightarrow> USBAdapter" where
  "NewUSBAdapter vendorID productID =
     \<lparr>ctx = None, device = None, intf = None, outEP = None, inEP = None, u_done = None,
      u_open = False, VendorID = vendorID, ProductID = productID\<rparr>"

definition ClassPrinter :: nat where
  "ClassPrinter = 7"

text \<open>The filter handed to \<open>OpenDevices\<close>: some alternate setting has the printer class.\<close>

definition is_printer_desc :: "DeviceDesc \<Rightarrow> bool" where
  "is_printer_desc desc =
     list_ex (\<lambda>cfg. list_ex (\<lambda>i. list_ex (\<lambda>alt. Class alt = ClassPrinter) (AltSettings i))
                      (Interfaces cfg)) (Configs desc)"

definition hex_digit :: "nat \<Rightarrow> char" where
  "hex_digit d = (if d < 10 then char_of (48 + d) else char_of (87 + d))"

text \<open>The format \<open>%04x\<close> of a 16-bit value.\<close>

definition hex4 :: "16 word \<Rightarrow> string" where
  "hex4 v =
     (let n = unat v
      in [hex_digit (n div 4096 mod 16), hex_digit (n div 256 mod 16),
          hex_digit (n div 16 mod 16), hex_digit (n mod 16)])"

text \<open>Closing the devices after the first: \<open>for i := 1; i < len(devices); i++\<close>.\<close>

fun close_devices :: "'w gousb \<Rightarrow> nat list \<Rightarrow> 'w \<Rightarrow> 'w" where
  "close_devices api [] w = w"
| "close_devices api (d # ds) w = close_devices api ds (device_Close api d w)"

text \<open>
  The two endpoint searches. A failed \<open>OutEndpoint\<close> stores the nil endpoint it returns
  and goes on to the next descriptor; the first success ends the loop.
\<close>

fun find_outEP :: "'w gousb \<Rightarrow> nat \<Rightarrow> EndpointDesc list \<Rightarrow> USBAdapter \<times> 'w \<Rightarrow> USBAdapter \<times> 'w" where
  "find_outEP api i [] (u, w) = (u, w)"
| "find_outEP api i (ep # eps) (u, w) =
     (if Direction ep = EndpointDirectionOut then
        (case intf_OutEndpoint api i (Number ep) w of
           (Inl err, w') \<Rightarrow> find_outEP api i eps (u\<lparr>outEP := None\<rparr>, w')
         | (Inr e, w') \<Rightarrow> (u\<lparr>outEP := Some e\<rparr>, w'))
      else find_outEP api i eps (u, w))"

fun find_inEP :: "'w gousb \<Rightarrow> nat \<Rightarrow> EndpointDesc list \<Rightarrow> USBAdapter \<times> 'w \<Rightarrow> USBAdapter \<times> 'w" where
  "find_inEP api i [] (u, w) = (u, w)"
| "find_inEP api i (ep # eps) (u, w) =
     (if Direction ep = EndpointDirectionIn then
        (case intf_InEndpoint api i (Number ep) w of
           (Inl err, w') \<Rightarrow> find_inEP api i eps (u\<lparr>inEP := None\<rparr>, w')
         | (Inr e, w') \<Rightarrow> (u\<lparr>inEP := Some e\<rparr>, w'))
      else find_inEP api i eps (u, w))"

text \<open>The part of \<open>Open\<close> after the device has been chosen.\<close>

definition USBAdapter_claim ::
  "'w gousb \<Rightarrow> nat \<Rightarrow> nat \<Rightarrow> USBAdapter \<times> 'w \<Rightarrow> error option \<times> (USBAdapter \<times> 'w)" where
  "USBAdapter_claim api c d = (\<lambda>(u, w).
     let u = u\<lparr>device := Some d\<rparr>;
         (_, w) = SetAutoDetach api d True w
     in case DefaultInterface api d w of
          (Inl err, w) \<Rightarrow>
            (let w = device_Close api d w; w = ctx_Close api c w
             in (Some (errorString (''failed to claim interface: '' @ Error err)), (u, w)))
        | (Inr (i, dn), w) \<Rightarrow>
            (let u = u\<lparr>intf := Some i, u_done := Some dn\<rparr>;
                 eps = Endpoints api i w;
                 (u, w) = find_outEP api i eps (u, w);
                 (u, w) = find_inEP api i eps (u, w)
             in if outEP u = None then
                  (let w = release api dn w; w = device_Close api d w; w = ctx_Close api c w
                   in (Some (errorString ''no OUT endpoint found''), (u, w)))
                else (None, (u\<lparr>u_open := True\<rparr>, w))))"

definition USBAdapter_Open ::
  "'w gousb \<Rightarrow> USBAdapter \<times> 'w \<Rightarrow> error option \<times> (USBAdapter \<times> 'w)" where
  "USBAdapter_Open api = (\<lambda>(u, w).
     if u_open u then (None, (u, w))
     else
       let (c, w) = NewContext api w;
           u = u\<lparr>ctx := Some c\<rparr>
       in if VendorID u \<noteq> 0 \<and> ProductID u \<noteq> 0 then
            (case OpenDeviceWithVIDPID api c (VendorID u) (ProductID u) w of
               ((_, Some err), w) \<Rightarrow>
                 (Some (errorString (''failed to open device '' @ hex4 (VendorID u) @ '':''
                          @ hex4 (ProductID u) @ '': '' @ Error err)),
                  (u, ctx_Close api c w))
             | ((None, None), w) \<Rightarrow>
                 (Some (errorString (''device '' @ hex4 (VendorID u) @ '':''
                          @ hex4 (ProductID u) @ '' not found'')),
                  (u, ctx_Close api c w))
             | ((Some d, None), w) \<Rightarrow> USBAdapter_claim api c d (u, w))
          else
            (case OpenDevices api c is_printer_desc w of
               ((_, Some err), w) \<Rightarrow>
                 (Some (errorString (''failed to enumerate USB devices: '' @ Error err)),
                  (u, ctx_Close api c w))
             | (([], None), w) \<Rightarrow>
                 (Some (errorString ''no USB printer found''), (u, ctx_Close api c w))
             | ((d # ds, None), w) \<Rightarrow>
                 USBAdapter_claim api c d (u, close_devices api ds w)))"

definition USBAdapter_Write ::
  "'w gousb \<Rightarrow> byte list \<Rightarrow> USBAdapter \<times> 'w \<Rightarrow> error option \<times> (USBAdapter \<times> 'w)" where
  "USBAdapter_Write api data = (\<lambda>(u, w).
     if \<not> u_open u then (Some (errorString ''adapter not open''), (u, w))
     else case outEP u of
            None \<Rightarrow> (Some (runtimePanic ''nil pointer dereference''), (u, w))
          | Some ep \<Rightarrow> (let (err, w') = outEP_Write api ep data w in (err, (u, w'))))"

definition USBAdapter_Close ::
  "'w gousb \<Rightarrow> USBAdapter \<times> 'w \<Rightarrow> error option \<times> (USBAdapter \<times> 'w)" where
  "USBAdapter_Close api = (\<lambda>(u, w).
     if \<not> u_open u then (None, (u, w))
     else
       let w = (case u_done u of None \<Rightarrow> w | Some dn \<Rightarrow> release api dn w);
           w = (case device u of None \<Rightarrow> w | Some d \<Rightarrow> device_Close api d w);
           w = (case ctx u of None \<Rightarrow> w | Some c \<Rightarrow> ctx_Close api c w)
       in (None, (u\<lparr>u_open := False\<rparr>, w)))"

definition USBAdapter_IsOpen :: "USBAdapter \<times> 'w \<Rightarrow> bool \<times> (USBAdapter \<times> 'w)" where
  "USBAdapter_IsOpen = (\<lambda>(u, w). (u_open u, (u, w)))"

text \<open>A bus with no device on it.\<close>

definition empty_bus :: "unit gousb" where
  "empty_bus =
     \<lparr>NewContext = (\<lambda>w. (0, w)),
      ctx_Close = (\<lambda>c w. w),
      OpenDeviceWithVIDPID = (\<lambda>c v p w. ((None, None), w)),
      OpenDevices = (\<lambda>c f w. (([], None), w)),
      device_Close = (\<lambda>d w. w),
      SetAutoDetach = (\<lambda>d b w. (None, w)),
      DefaultInterface = (\<lambda>d w. (Inl (errorString ''no device''), w)),
      Endpoints = (\<lambda>i w. []),
      intf_OutEndpoint = (\<lambda>i k w. (Inl (errorString ''no device''), w)),
      intf_InEndpoint = (\<lambda>i k w. (Inl (errorString ''no device''), w)),
      outEP_Write = (\<lambda>e data w. (Some (errorString ''no device''), w)),
      release = (\<lambda>d w. w)\<rparr>"

section \<open>The USB adapter of builds without cgo (stub)\<close>

record USBAdapterStub =
  stub_VendorID :: "16 word"
  stub_ProductID :: "16 word"

definition USBAdapterStub_Open :: "USBAdapterStub \<Rightarrow> error option \<times> USBAdapterStub" where
  "USBAdapterStub_Open u =
     (Some (errorString (''USB adapter not available: requires native build with CGO. ''
        @ ''Use '' @ [CHR 0x27] @ ''network'' @ [CHR 0x27] @ '' or '' @ [CHR 0x27]
        @ ''console'' @ [CHR 0x27] @ '' adapter instead'')), u)"

definition USBAdapterStub_Write :: "byte list \<Rightarrow> USBAdapterStub \<Rightarrow> error option \<times> USBAdapterStub" where
  "USBAdapterStub_Write data u = (Some (errorString ''USB adapter not available''), u)"

definition USBAdapterStub_Close :: "USBAdapterStub \<Rightarrow> error option \<times> USBAdapterStub" where
  "USBAdapterStub_Close u = (None, u)"

definition USBAdapterStub_IsOpen :: "USBAdapterStub \<Rightarrow> bool \<times> USBAdapterStub" where
  "USBAdapterStub_IsOpen u = (False, u)"

section \<open>The Windows spooler adapter (pkg/adapter/printer_windows.go)\<close>

text \<open>
  The adapter calls the spooler through \<open>winspool.drv\<close>. Each procedure is a parameter
  of the model, a function on a state \<open>'w\<close> of the spooler; a call that returns 0 is
  the result \<open>Inl e\<close> or \<open>Some e\<close> with the system's error \<open>e\<close>. The printer handle is
  a number, 0 when there is none.
\<close>

record 'w winspool =
  OpenPrinterW :: "string \<Rightarrow> 'w \<Rightarrow> (error + nat) \<times> 'w"
  ClosePrinter :: "nat \<Rightarrow> 'w \<Rightarrow> 'w"
  StartDocPrinterW :: "nat \<Rightarrow> string \<Rightarrow> string \<Rightarrow> 'w \<Rightarrow> error option \<times> 'w"
  StartPagePrinter :: "nat \<Rightarrow> 'w \<Rightarrow> error option \<times> 'w"
  WritePrinter :: "nat \<Rightarrow> byte list \<Rightarrow> 'w \<Rightarrow> error option \<times> 'w"
  EndPagePrinter :: "nat \<Rightarrow> 'w \<Rightarrow> 'w"
  EndDocPrinter :: "nat \<Rightarrow> 'w \<Rightarrow> 'w"

record WindowsPrinter =
  handle :: nat
  name :: string

definition NewWindowsPrinter :: "string \<Rightarrow> WindowsPrinter" where
  "NewWindowsPrinter nm = \<lparr>handle = 0, name = nm\<rparr>"

text \<open>\<open>syscall.UTF16PtrFromString\<close> fails on a string that contains a NUL.\<close>

definition UTF16PtrFromString :: "string \<Rightarrow> error option" where
  "UTF16PtrFromString s =
     (if CHR 0x00 \<in> set s then Some (errorString ''invalid argument'') else None)"

definition WindowsPrinter_Open ::
  "'w winspool \<Rightarrow> WindowsPrinter \<times> 'w \<Rightarrow> error option \<times> (WindowsPrinter \<times> 'w)" where
  "WindowsPrinter_Open api = (\<lambda>(wp, w).
     case UTF16PtrFromString (name wp) of
       Some err \<Rightarrow> (Some err, (wp, w))
     | None \<Rightarrow>
         (case OpenPrinterW api (name wp) w of
            (Inl e1, w') \<Rightarrow>
              (Some (errorString (''OpenPrinterW failed: '' @ Error e1)), (wp, w'))
          | (Inr h, w') \<Rightarrow> (None, (wp\<lparr>handle := h\<rparr>, w'))))"

definition WindowsPrinter_Write ::
  "'w winspool \<Rightarrow> byte list \<Rightarrow> WindowsPrinter \<times> 'w \<Rightarrow> error option \<times> (WindowsPrinter \<times> 'w)" where
  "WindowsPrinter_Write api data = (\<lambda>(wp, w).
     if handle wp = 0 then (Some (errorString ''printer not open''), (wp, w))
     else
       case StartDocPrinterW api (handle wp) ''PrintBridge Raw Data'' ''RAW'' w of
         (Some e1, w) \<Rightarrow>
           (Some (errorString (''StartDocPrinterW failed: '' @ Error e1)), (wp, w))
       | (None, w) \<Rightarrow>
           (case StartPagePrinter api (handle wp) w of
              (Some e1, w) \<Rightarrow>
                (Some (errorString (''StartPagePrinter failed: '' @ Error e1)),
                 (wp, EndDocPrinter api (handle wp) w))
            | (None, w) \<Rightarrow>
                if data = [] then
                  (Some (runtimePanic ''index out of range [0] with length 0''), (wp, w))
                else
                  (case WritePrinter api (handle wp) data w of
                     (Some e1, w) \<Rightarrow>
                       (Some (errorString (''WritePrinter failed: '' @ Error e1)),
                        (wp, EndDocPrinter api (handle wp) (EndPagePrinter api (handle wp) w)))
                   | (None, w) \<Rightarrow>
                       (None,
                        (wp, EndDocPrinter api (handle wp) (EndPagePrinter api (handle wp) w))))))"

definition WindowsPrinter_Close ::
  "'w winspool \<Rightarrow> WindowsPrinter \<times> 'w \<Rightarrow> error option \<times> (WindowsPrinter \<times> 'w)" where
  "WindowsPrinter_Close api = (\<lambda>(wp, w).
     if handle wp \<noteq> 0 then (None, (wp\<lparr>handle := 0\<rparr>, ClosePrinter api (handle wp) w))
     else (None, (wp, w)))"

definition WindowsPrinter_IsOpen :: "WindowsPrinter \<times> 'w \<Rightarrow> bool \<times> (WindowsPrinter \<times> 'w)" where
  "WindowsPrinter_IsOpen = (\<lambda>(wp, w). (handle wp \<noteq> 0, (wp, w)))"

text \<open>
  A simulated spooler, to run the adapter on: every successful \<open>OpenPrinterW\<close> hands out
  a handle never used before and keeps it in \<open>live\<close> until \<open>ClosePrinter\<close> is called
  on it; \<open>WritePrinter\<close> keeps the bytes it was given.
\<close>

record spooler =
  issued :: nat
  live :: "nat list"
  printed :: "byte list list"

definition sim_winspool :: "spooler winspool" where
  "sim_winspool =
     \<lparr>OpenPrinterW = (\<lambda>nm s. let h = Suc (issued s)
                              in (Inr h, s\<lparr>issued := h, live := live s @ [h]\<rparr>)),
      ClosePrinter = (\<lambda>h s. s\<lparr>live := remove1 h (live s)\<rparr>),
      StartDocPrinterW = (\<lambda>h doc dt s. (None, s)),
      StartPagePrinter = (\<lambda>h s. (None, s)),
      WritePrinter = (\<lambda>h data s. (None, s\<lparr>printed := printed s @ [data]\<rparr>)),
      EndPagePrinter = (\<lambda>h s. s),
      EndDocPrinter = (\<lambda>h s. s)\<rparr>"

section \<open>Helper facts\<close>

lemma uint_byte_of_int: "0 \<le> n \<Longrightarrow> n < 256 \<Longrightarrow> uint (byte_of_int n) = n"
  by (simp add: byte_of_int_def uint_word_of_int take_bit_int_eq_self)

lemma uint_byte_of_int_mod: "uint (byte_of_int n) = n mod 256"
  by (simp add: byte_of_int_def uint_word_of_int take_bit_eq_mod)

lemma length_bytes: "length (bytes s) = length s"
  by (simp add: bytes_def)

lemma bytes_HELLO: "bytes ''HELLO'' = [0x48, 0x45, 0x4c, 0x4c, 0x4f]"
  by (simp add: bytes_def byte_of_char_def)

lemma bytes_HI: "bytes ''HI'' = [0x48, 0x49]"
  by (simp add: bytes_def byte_of_char_def)

lemma string_of_bytes_HI: "string_of_bytes [0x48, 0x49] = ''HI''"
  by (simp add: string_of_bytes_def char_of_def bit_0)

lemma Feed_loop_done: "\<not> i < n \<Longrightarrow> Feed_loop i n p = p"
  by (simp add: Feed_loop.simps)

lemma Feed_loop_step:
  "i < n \<Longrightarrow> Feed_loop i n p = Feed_loop (i + 1) n (p\<lparr>buffer := buffer p @ CTL_LF\<rparr>)"
  by (subst Feed_loop.simps) simp

lemma Feed_3: "Feed 3 p = p\<lparr>buffer := buffer p @ [0x0a, 0x0a, 0x0a]\<rparr>"
  by (simp add: Feed_def Feed_loop_step Feed_loop_done CTL_LF_def)

lemma TxtCustomSize_clamp:
  "TxtCustomSize w h =
     [0x1d, 0x21, byte_of_int ((max 1 (min 8 w) - 1) * 16 + (max 1 (min 8 h) - 1))]"
  by (simp add: TxtCustomSize_def Let_def max_def min_def)

lemma BarcodeHeight_clamp: "BarcodeHeight h = [0x1d, 0x68, byte_of_int (max 1 (min 255 h))]"
  by (simp add: BarcodeHeight_def Let_def max_def min_def)

lemma BarcodeWidth_clamp: "BarcodeWidth w = [0x1d, 0x77, byte_of_int (max 2 (min 6 w))]"
  by (simp add: BarcodeWidth_def Let_def max_def min_def)

lemmas barcode_table =
  BARCODE_TXT_BLW_def BARCODE_FONT_A_def BARCODE_UPC_A_def BARCODE_UPC_E_def
  BARCODE_EAN13_def BARCODE_EAN8_def BARCODE_CODE39_def BARCODE_CODE128_def

lemma QRCodeAdvanced_buffer:
  "QRCodeAdvanced content sz errorLevel model p =
     p\<lparr>buffer := buffer p
        @ QR_MODEL @ [byte_of_int model, 0x00]
        @ QR_SIZE @ [byte_of_int (if sz < 1 then 6 else min 16 sz)]
        @ QR_ERROR @ [byte_of_int errorLevel]
        @ QR_STORE_PRE
        @ [byte_of_int ((int (length (bytes content)) + 3) mod 256),
           byte_of_int ((int (length (bytes content)) + 3) div 256)]
        @ QR_STORE_POST @ bytes content @ QR_PRINT\<rparr>"
  by (simp add: QRCodeAdvanced_def Let_def min_def)

lemma QRCodeWiFi_buffer:
  "QRCodeWiFi ssid password authType hidden p =
     p\<lparr>buffer := buffer p
        @ QR_MODEL @ [0x32, 0x00] @ QR_SIZE @ [0x06] @ QR_ERROR @ [0x31]
        @ [0x1d, 0x28, 0x6b]
        @ [byte_of_int ((int (length (spec_WiFi_payload authType ssid password hidden)) + 3) mod 256),
           byte_of_int ((int (length (spec_WiFi_payload authType ssid password hidden)) + 3) div 256)]
        @ [0x31, 0x50, 0x30]
        @ bytes (spec_WiFi_payload authType ssid password hidden)
        @ QR_PRINT\<rparr>"
  by (simp add: QRCodeWiFi_def Let_def QRCodeAdvanced_buffer QRErrorM_def QRModel2_def
      byte_of_int_def QR_STORE_PRE_def QR_STORE_POST_def length_bytes spec_WiFi_payload_def)

lemma recording_sel:
  "Open (recording ad) (a, log) = (fst (Open ad a), (snd (Open ad a), log @ [CallOpen]))"
  "Write (recording ad) data (a, log) =
     (fst (Write ad data a), (snd (Write ad data a), log @ [CallWrite data]))"
  "IsOpen (recording ad) (a, log) = (fst (IsOpen ad a), (snd (IsOpen ad a), log @ [CallIsOpen]))"
  by (simp_all add: recording_def split_beta)

section \<open>Building a receipt\<close>

text \<open>
  C1. On a fresh builder, Init, Align center, Bold on, Text HELLO, Bold off, Cut (full)
  leave in the buffer exactly: 1B 40, 1B 61 01, 1B 45 01, the five bytes of HELLO,
  1B 45 00, three line feeds 0A, and 1D 56 00, in this order and nothing else. The other
  fields of the builder are those of a fresh one.
\<close>

theorem receipt_roundtrip:
  "Cut False (Bold False (Text ''HELLO'' (Bold True (Align ''center'' (Init (New a))))))
   = (New a)\<lparr>buffer :=
       [0x1b, 0x40] @ [0x1b, 0x61, 0x01] @ [0x1b, 0x45, 0x01]
       @ [0x48, 0x45, 0x4c, 0x4c, 0x4f] @ [0x1b, 0x45, 0x00]
       @ [0x0a, 0x0a, 0x0a] @ [0x1d, 0x56, 0x00]\<rparr>"
  by (simp add: Cut_def Feed_3 Bold_def Text_def bytes_HELLO Align_def Init_def New_def
      HW_INIT_def TXT_ALIGN_CT_def TXT_BOLD_ON_def TXT_BOLD_OFF_def PAPER_FULL_CUT_def)

section \<open>Text size\<close>

text \<open>
  C3. For all integers \<open>w\<close> and \<open>h\<close>, \<open>Size w h\<close> appends the three bytes 1D 21 s,
  where s, read as a number, is \<open>(w' - 1) * 16 + (h' - 1)\<close> for \<open>w'\<close> and \<open>h'\<close> the
  arguments clamped to the nearest bound of 1..8. For arguments that are in 1..8 the byte
  is \<open>(w - 1) * 16 + (h - 1)\<close>. \<open>Size\<close> has no error result, and the rest of the
  builder is unchanged.
\<close>

theorem Size_clamped:
  "Size w h p = p\<lparr>buffer := buffer p @
       [0x1d, 0x21, byte_of_int ((max 1 (min 8 w) - 1) * 16 + (max 1 (min 8 h) - 1))]\<rparr>
   \<and> uint (byte_of_int ((max 1 (min 8 w) - 1) * 16 + (max 1 (min 8 h) - 1)))
       = (max 1 (min 8 w) - 1) * 16 + (max 1 (min 8 h) - 1)
   \<and> (1 \<le> w \<and> w \<le> 8 \<and> 1 \<le> h \<and> h \<le> 8 \<longrightarrow>
        Size w h p = p\<lparr>buffer := buffer p @ [0x1d, 0x21, byte_of_int ((w - 1) * 16 + (h - 1))]\<rparr>
        \<and> uint (byte_of_int ((w - 1) * 16 + (h - 1))) = (w - 1) * 16 + (h - 1))"
proof -
  let ?w = "max 1 (min 8 w)" and ?h = "max 1 (min 8 h)"
  have eq: "Size w h p =
      p\<lparr>buffer := buffer p @ [0x1d, 0x21, byte_of_int ((?w - 1) * 16 + (?h - 1))]\<rparr>"
    by (simp add: Size_def TxtCustomSize_clamp)
  have "0 \<le> (?w - 1) * 16 + (?h - 1)" "(?w - 1) * 16 + (?h - 1) < 256"
    by (auto simp: max_def min_def)
  then have u: "uint (byte_of_int ((?w - 1) * 16 + (?h - 1))) = (?w - 1) * 16 + (?h - 1)"
    by (rule uint_byte_of_int)
  have "1 \<le> w \<and> w \<le> 8 \<Longrightarrow> ?w = w" "1 \<le> h \<and> h \<le> 8 \<Longrightarrow> ?h = h"
    by (auto simp: max_def min_def)
  with eq u show ?thesis by auto
qed

theorem Size_clamped_witness:
  "(1::int) \<le> 3 \<and> (3::int) \<le> 8 \<and> (1::int) \<le> 5 \<and> (5::int) \<le> 8
   \<and> Size 3 5 (New ()) = (New ())\<lparr>buffer := [0x1d, 0x21, 0x24]\<rparr>
   \<and> uint (byte_of_int ((3 - 1) * 16 + (5 - 1))) = 36
   \<and> Size 0 9 (New ()) = (New ())\<lparr>buffer := [0x1d, 0x21, 0x07]\<rparr>"
  using Size_clamped [of 3 5 "New ()"] Size_clamped [of 0 9 "New ()"]
  by (simp add: New_def byte_of_int_def)

section \<open>Barcodes\<close>

text \<open>
  C5. For every code string, \<open>Barcode code ''EAN13'' w h\<close> appends, after the preamble
  (HRI position, HRI font, height, width), the selector 1D 6B 02 immediately followed by
  the bytes of the code (and the closing 00). For every type string outside the
  recognised set the selector is that of CODE39, 1D 6B 04, again followed by the bytes of
  the code; nothing fails.
\<close>

theorem Barcode_type_selector:
  "Barcode code ''EAN13'' w h p =
     p\<lparr>buffer := buffer p @ BARCODE_TXT_BLW @ BARCODE_FONT_A @ BarcodeHeight h @ BarcodeWidth w
                  @ [0x1d, 0x6b, 0x02] @ bytes code @ [0x00]\<rparr>
   \<and> (t \<notin> {''UPC_A'', ''UPC-A'', ''UPC_E'', ''UPC-E'', ''EAN13'', ''EAN8'', ''CODE39'', ''CODE128''}
        \<longrightarrow> Barcode code t w h p =
              p\<lparr>buffer := buffer p @ BARCODE_TXT_BLW @ BARCODE_FONT_A @ BarcodeHeight h
                           @ BarcodeWidth w @ [0x1d, 0x6b, 0x04] @ bytes code @ [0x00]\<rparr>)"
  by (simp add: Barcode_def Let_def BARCODE_EAN13_def BARCODE_CODE39_def)

theorem Barcode_type_selector_witness:
  "''QR'' \<notin> {''UPC_A'', ''UPC-A'', ''UPC_E'', ''UPC-E'', ''EAN13'', ''EAN8'', ''CODE39'', ''CODE128''}
   \<and> Barcode ''42'' ''QR'' 2 60 (New ()) =
       (New ())\<lparr>buffer := [0x1d, 0x48, 0x02, 0x1d, 0x66, 0x00, 0x1d, 0x68, 0x3c, 0x1d, 0x77, 0x02,
                            0x1d, 0x6b, 0x04, 0x34, 0x32, 0x00]\<rparr>"
  using Barcode_type_selector [of "''42''" 2 60 "New ()" "''QR''"]
  by (simp add: New_def barcode_table BarcodeHeight_clamp BarcodeWidth_clamp byte_of_int_def
      bytes_def byte_of_char_def)

text \<open>
  C10. Every call \<open>Barcode code t w h\<close> appends exactly, in order: 1D 48 02 (HRI below),
  1D 66 00 (HRI font A), 1D 68 and the height clamped to 1..255, 1D 77 and the width
  clamped to 2..6, the type selector 1D 6B k, the bytes of the code, and one closing 00.
  The two clamped values fit a byte unchanged.
\<close>

theorem Barcode_bytes:
  "Barcode code t w h p =
     p\<lparr>buffer := buffer p
        @ [0x1d, 0x48, 0x02] @ [0x1d, 0x66, 0x00]
        @ [0x1d, 0x68, byte_of_int (max 1 (min 255 h))]
        @ [0x1d, 0x77, byte_of_int (max 2 (min 6 w))]
        @ [0x1d, 0x6b,
           if t = ''UPC_A'' \<or> t = ''UPC-A'' then 0x00
           else if t = ''UPC_E'' \<or> t = ''UPC-E'' then 0x01
           else if t = ''EAN13'' then 0x02
           else if t = ''EAN8'' then 0x03
           else if t = ''CODE128'' then 0x49
           else 0x04]
        @ bytes code @ [0x00]\<rparr>
   \<and> uint (byte_of_int (max 1 (min 255 h))) = max 1 (min 255 h)
   \<and> uint (byte_of_int (max 2 (min 6 w))) = max 2 (min 6 w)"
proof -
  have "uint (byte_of_int (max 1 (min 255 h))) = max 1 (min 255 h)"
    by (rule uint_byte_of_int) (auto simp: max_def min_def)
  moreover have "uint (byte_of_int (max 2 (min 6 w))) = max 2 (min 6 w)"
    by (rule uint_byte_of_int) (auto simp: max_def min_def)
  moreover have "Barcode code t w h p =
     p\<lparr>buffer := buffer p
        @ [0x1d, 0x48, 0x02] @ [0x1d, 0x66, 0x00]
        @ [0x1d, 0x68, byte_of_int (max 1 (min 255 h))]
        @ [0x1d, 0x77, byte_of_int (max 2 (min 6 w))]
        @ [0x1d, 0x6b,
           if t = ''UPC_A'' \<or> t = ''UPC-A'' then 0x00
           else if t = ''UPC_E'' \<or> t = ''UPC-E'' then 0x01
           else if t = ''EAN13'' then 0x02
           else if t = ''EAN8'' then 0x03
           else if t = ''CODE128'' then 0x49
           else 0x04]
        @ bytes code @ [0x00]\<rparr>"
    by (simp add: Barcode_def Let_def barcode_table BarcodeHeight_clamp BarcodeWidth_clamp)
  ultimately show ?thesis by blast
qed

section \<open>QR codes\<close>

text \<open>
  C7, as the claim states it, fails below 1: a module size of 0 is sent as 6, not as 1
  (the size byte is the 17th byte of the command sequence).
\<close>

theorem QRCodeAdvanced_size_below_1:
  "buffer (QRCodeAdvanced ''A'' 0 QRErrorL QRModel2 (New ())) ! 16 = 6
   \<and> buffer (QRCodeAdvanced ''A'' 0 QRErrorL QRModel2 (New ())) ! 16
       \<noteq> byte_of_int (max 1 (min 16 0))"
  by (simp add: QRCodeAdvanced_buffer New_def QR_MODEL_def QR_SIZE_def byte_of_int_def)

text \<open>
  C7, amended. For every integer size, \<open>QRCodeAdvanced\<close> sends after the size command
  1D 28 6B 03 00 31 43 one byte: 6 for a size below 1, 16 for a size above 16, and the
  size itself otherwise. The value sent is always in 1..16 and fits the byte unchanged.
\<close>

theorem QRCodeAdvanced_size:
  "QRCodeAdvanced content sz errorLevel model p =
     p\<lparr>buffer := buffer p
        @ QR_MODEL @ [byte_of_int model, 0x00]
        @ [0x1d, 0x28, 0x6b, 0x03, 0x00, 0x31, 0x43]
        @ [byte_of_int (if sz < 1 then 6 else min 16 sz)]
        @ QR_ERROR @ [byte_of_int errorLevel]
        @ QR_STORE_PRE
        @ [byte_of_int ((int (length (bytes content)) + 3) mod 256),
           byte_of_int ((int (length (bytes content)) + 3) div 256)]
        @ QR_STORE_POST @ bytes content @ QR_PRINT\<rparr>
   \<and> uint (byte_of_int (if sz < 1 then 6 else min 16 sz)) = (if sz < 1 then 6 else min 16 sz)
   \<and> 1 \<le> (if sz < 1 then 6 else min 16 sz) \<and> (if sz < 1 then 6 else min 16 sz) \<le> 16"
proof -
  have "uint (byte_of_int (if sz < 1 then 6 else min 16 sz)) = (if sz < 1 then 6 else min 16 sz)"
    by (rule uint_byte_of_int) (auto simp: min_def)
  then show ?thesis
    by (simp add: QRCodeAdvanced_buffer QR_SIZE_def)
qed

text \<open>
  C4, as the claim states it, fails for a long payload: with an SSID of 65536 bytes the
  stored length is 65570, and the second length byte (the 30th byte of the sequence) is
  not 65570 div 256 = 256, which no byte can hold.
\<close>

theorem QRCodeWiFi_long_payload:
  "uint (buffer (QRCodeWiFi (replicate 65536 (CHR ''a'')) ''pw'' ''WPA'' False (New ())) ! 29)
   \<noteq> (int (length (''WIFI:T:WPA;S:'' @ replicate 65536 (CHR ''a'') @ '';P:pw;H:false;;'')) + 3)
       div 256"
  by (simp add: QRCodeWiFi_buffer New_def QR_MODEL_def QR_SIZE_def QR_ERROR_def nth_append
      spec_WiFi_payload_def byte_of_int_def)

text \<open>
  C4, amended. For every ssid, password, authType and hidden flag, \<open>QRCodeWiFi\<close> appends
  model 2, size 6, error level M, and the store command 1D 28 6B pL pH 31 50 30 followed
  by the bytes of the payload \<open>WIFI:T:<auth>;S:<ssid>;P:<password>;H:<true|false>;;\<close> and
  the print command. With \<open>L\<close> the payload length plus 3, \<open>pL\<close> is \<open>L mod 256\<close> and
  \<open>pH\<close> is \<open>L div 256 mod 256\<close>, which is \<open>L div 256\<close> whenever \<open>L < 65536\<close>. For
  \<open>QRCodeWiFi "Net" "pw" "WPA" false\<close> the payload is \<open>WIFI:T:WPA;S:Net;P:pw;H:false;;\<close> and
  the two length bytes are 22 00 (hexadecimal).
\<close>

theorem QRCodeWiFi_store:
  "QRCodeWiFi ssid password authType hidden p =
     p\<lparr>buffer := buffer p
        @ QR_MODEL @ [0x32, 0x00] @ QR_SIZE @ [0x06] @ QR_ERROR @ [0x31]
        @ [0x1d, 0x28, 0x6b]
        @ [byte_of_int ((int (length (spec_WiFi_payload authType ssid password hidden)) + 3) mod 256),
           byte_of_int ((int (length (spec_WiFi_payload authType ssid password hidden)) + 3) div 256)]
        @ [0x31, 0x50, 0x30]
        @ bytes (spec_WiFi_payload authType ssid password hidden)
        @ QR_PRINT\<rparr>
   \<and> uint (byte_of_int ((int (length (spec_WiFi_payload authType ssid password hidden)) + 3) mod 256))
       = (int (length (spec_WiFi_payload authType ssid password hidden)) + 3) mod 256
   \<and> uint (byte_of_int ((int (length (spec_WiFi_payload authType ssid password hidden)) + 3) div 256))
       = (int (length (spec_WiFi_payload authType ssid password hidden)) + 3) div 256 mod 256
   \<and> (int (length (spec_WiFi_payload authType ssid password hidden)) + 3 < 65536 \<longrightarrow>
        uint (byte_of_int ((int (length (spec_WiFi_payload authType ssid password hidden)) + 3) div 256))
        = (int (length (spec_WiFi_payload authType ssid password hidden)) + 3) div 256)
   \<and> spec_WiFi_payload ''WPA'' ''Net'' ''pw'' False = ''WIFI:T:WPA;S:Net;P:pw;H:false;;''
   \<and> QRCodeWiFi ''Net'' ''pw'' ''WPA'' False p =
       p\<lparr>buffer := buffer p
        @ QR_MODEL @ [0x32, 0x00] @ QR_SIZE @ [0x06] @ QR_ERROR @ [0x31]
        @ [0x1d, 0x28, 0x6b] @ [0x22, 0x00] @ [0x31, 0x50, 0x30]
        @ bytes ''WIFI:T:WPA;S:Net;P:pw;H:false;;'' @ QR_PRINT\<rparr>"
  (is "?A \<and> ?B \<and> ?C \<and> ?D \<and> ?E \<and> ?F")
proof -
  have A: ?A by (rule QRCodeWiFi_buffer)
  have B: ?B by (simp add: uint_byte_of_int_mod)
  have C: ?C by (simp only: uint_byte_of_int_mod)
  have D: ?D by (simp only: uint_byte_of_int_mod) auto
  have E: ?E by (simp add: spec_WiFi_payload_def)
  have F: ?F by (simp add: QRCodeWiFi_buffer E byte_of_int_def)
  from A B C D E F show ?thesis by blast
qed

theorem QRCodeWiFi_store_witness:
  "int (length (spec_WiFi_payload ''WPA'' ''Net'' ''pw'' False)) + 3 < 65536
   \<and> uint (byte_of_int ((int (length (spec_WiFi_payload ''WPA'' ''Net'' ''pw'' False)) + 3) div 256)) = 0
   \<and> uint (byte_of_int ((int (length (spec_WiFi_payload ''WPA'' ''Net'' ''pw'' False)) + 3) mod 256)) = 34"
  using QRCodeWiFi_store [of "''Net''" "''pw''" "''WPA''" False "New ()"]
  by (simp add: spec_WiFi_payload_def)

section \<open>Flush\<close>

text \<open>
  C9. When the buffer is empty, \<open>Flush\<close> returns success and the builder as it was. Run
  on a recording transport, the log of calls is the one from before: no \<open>Write\<close>, no
  \<open>Open\<close> (and no other call) was made, and the state of the transport, with its
  open or closed flag, is unchanged; the buffer is still empty.
\<close>

theorem Flush_empty:
  assumes "buffer p = []" and "adapter p = (a, log)"
  shows "Flush (recording ad) p = (None, p)
       \<and> adapter (snd (Flush (recording ad) p)) = (a, log)
       \<and> buffer (snd (Flush (recording ad) p)) = []"
  using assms by (simp add: Flush_def)

theorem Flush_empty_witness:
  "buffer (New ((NewConsoleAdapter, []), [])) = []
   \<and> adapter (New ((NewConsoleAdapter, []), [])) = ((NewConsoleAdapter, []), [])
   \<and> Flush (recording ConsoleAdapter_methods) (New ((NewConsoleAdapter, []), []))
       = (None, New ((NewConsoleAdapter, []), []))"
  using Flush_empty [of "New ((NewConsoleAdapter, []), [])" "(NewConsoleAdapter, [])" "[]"
      ConsoleAdapter_methods]
  by (simp add: New_def)

text \<open>
  C2. With a non-empty buffer, on a recording transport with log \<open>log\<close>:
  \<^item> if the transport says it is open, \<open>Flush\<close> does not call \<open>Open\<close>; it makes one
    \<open>Write\<close> with the whole buffer, returns what that \<open>Write\<close> returned (an error or
    none) and the buffer is empty afterwards;
  \<^item> if the transport is not open and \<open>Open\<close> returns an error \<open>e\<close>, \<open>Flush\<close> returns
    \<open>e\<close> wrapped with the prefix "failed to open adapter: ", makes no \<open>Write\<close>, and the
    buffer is as it was;
  \<^item> if the transport is not open and \<open>Open\<close> succeeds, \<open>Flush\<close> makes one \<open>Write\<close>
    with the whole buffer, returns what it returned, and the buffer is empty afterwards.
  A \<open>Write\<close> or \<open>Open\<close> that panics, instead of returning, is outside the claim.
\<close>

theorem Flush_nonempty:
  assumes "buffer p \<noteq> []" and "adapter p = (a, log)"
  shows "(fst (IsOpen ad a) \<and> \<not> is_panic (fst (Write ad (buffer p) (snd (IsOpen ad a)))) \<longrightarrow>
            Flush (recording ad) p =
              (fst (Write ad (buffer p) (snd (IsOpen ad a))),
               p\<lparr>adapter := (snd (Write ad (buffer p) (snd (IsOpen ad a))),
                               log @ [CallIsOpen, CallWrite (buffer p)]),
                  buffer := []\<rparr>))
       \<and> (\<not> fst (IsOpen ad a) \<and> fst (Open ad (snd (IsOpen ad a))) = Some e
            \<and> \<not> is_panic (Some e) \<longrightarrow>
            Flush (recording ad) p =
              (Some (wrapError (''failed to open adapter: '' @ Error e) e),
               p\<lparr>adapter := (snd (Open ad (snd (IsOpen ad a))), log @ [CallIsOpen, CallOpen])\<rparr>))
       \<and> (\<not> fst (IsOpen ad a) \<and> fst (Open ad (snd (IsOpen ad a))) = None
            \<and> \<not> is_panic (fst (Write ad (buffer p) (snd (Open ad (snd (IsOpen ad a)))))) \<longrightarrow>
            Flush (recording ad) p =
              (fst (Write ad (buffer p) (snd (Open ad (snd (IsOpen ad a))))),
               p\<lparr>adapter := (snd (Write ad (buffer p) (snd (Open ad (snd (IsOpen ad a))))),
                               log @ [CallIsOpen, CallOpen, CallWrite (buffer p)]),
                  buffer := []\<rparr>))"
  using assms by (simp add: Flush_def split_beta Let_def recording_sel)

theorem Flush_nonempty_witness:
  "buffer (Text ''HI'' (New (NewSerialAdapter ''COM1'' 0, []))) \<noteq> []
   \<and> \<not> fst (IsOpen SerialAdapter_methods (NewSerialAdapter ''COM1'' 0))
   \<and> \<not> fst (IsOpen ConsoleAdapter_methods (NewConsoleAdapter, []))
   \<and> fst (IsOpen (NetworkAdapter_methods down_net)
            ((NewNetworkAdapter ''10.0.0.5'' 0)\<lparr>conn := Some 0, n_open := True\<rparr>, ()))
   \<and> Flush (recording SerialAdapter_methods) (Text ''HI'' (New (NewSerialAdapter ''COM1'' 0, [])))
     = (Some (wrapError ''failed to open adapter: serial adapter not yet implemented''
                (errorString ''serial adapter not yet implemented'')),
        \<lparr>adapter = (NewSerialAdapter ''COM1'' 0, [CallIsOpen, CallOpen]),
         buffer = [0x48, 0x49], encoding = ''UTF-8'', width = 48\<rparr>)
   \<and> Flush (recording ConsoleAdapter_methods) (Text ''HI'' (New ((NewConsoleAdapter, []), [])))
     = (None,
        \<lparr>adapter = ((\<lparr>c_open = True\<rparr>, [''[ConsoleAdapter] Opened'' @ [CHR 0x0A], ''[PRINT] HI'']),
                    [CallIsOpen, CallOpen, CallWrite [0x48, 0x49]]),
         buffer = [], encoding = ''UTF-8'', width = 48\<rparr>)
   \<and> Flush (recording (NetworkAdapter_methods down_net))
        (Text ''HI'' (New (((NewNetworkAdapter ''10.0.0.5'' 0)\<lparr>conn := Some 0, n_open := True\<rparr>, ()), [])))
     = (Some (errorString ''broken pipe''),
        \<lparr>adapter = (((NewNetworkAdapter ''10.0.0.5'' 0)\<lparr>conn := Some 0, n_open := True\<rparr>, ()),
                    [CallIsOpen, CallWrite [0x48, 0x49]]),
         buffer = [], encoding = ''UTF-8'', width = 48\<rparr>)"
  using
    Flush_nonempty [of "Text ''HI'' (New (NewSerialAdapter ''COM1'' 0, []))"
      "NewSerialAdapter ''COM1'' 0" "[]" SerialAdapter_methods
      "errorString ''serial adapter not yet implemented''"]
    Flush_nonempty [of "Text ''HI'' (New ((NewConsoleAdapter, []), []))"
      "(NewConsoleAdapter, [])" "[]" ConsoleAdapter_methods]
    Flush_nonempty [of
      "Text ''HI'' (New (((NewNetworkAdapter ''10.0.0.5'' 0)\<lparr>conn := Some 0, n_open := True\<rparr>, ()), []))"
      "((NewNetworkAdapter ''10.0.0.5'' 0)\<lparr>conn := Some 0, n_open := True\<rparr>, ())" "[]"
      "NetworkAdapter_methods down_net"]
  by (simp add: Text_def New_def bytes_HI string_of_bytes_HI
      SerialAdapter_methods_def SerialAdapter_IsOpen_def SerialAdapter_Open_def
      NewSerialAdapter_def
      ConsoleAdapter_methods_def ConsoleAdapter_IsOpen_def ConsoleAdapter_Open_def
      ConsoleAdapter_Write_def NewConsoleAdapter_def
      NetworkAdapter_methods_def NetworkAdapter_IsOpen_def NetworkAdapter_Write_def
      NewNetworkAdapter_def down_net_def)

section \<open>Transports\<close>

text \<open>
  What \<open>Open\<close> does on an adapter that is already open, and \<open>Close\<close> on one that is
  closed. The USB and the network adapter test their flag first and return at once.
\<close>

lemma NetworkAdapter_Open_open:
  "n_open n \<Longrightarrow> NetworkAdapter_Open api (n, w) = (None, (n, w))"
  by (simp add: NetworkAdapter_Open_def)

lemma USBAdapter_Open_open:
  "u_open u \<Longrightarrow> USBAdapter_Open api (u, w) = (None, (u, w))"
  by (simp add: USBAdapter_Open_def)

lemma ConsoleAdapter_Open_open:
  "c_open c \<Longrightarrow>
   ConsoleAdapter_Open (c, out) = (None, (c, out @ [''[ConsoleAdapter] Opened'' @ [CHR 0x0A]]))"
  by (simp add: ConsoleAdapter_Open_def)

lemma Close_closed:
  "\<not> n_open n \<Longrightarrow> NetworkAdapter_Close napi (n, nw) = (None, (n, nw))"
  "\<not> u_open u \<Longrightarrow> USBAdapter_Close uapi (u, uw) = (None, (u, uw))"
  "handle wp = 0 \<Longrightarrow> WindowsPrinter_Close wapi (wp, ww) = (None, (wp, ww))"
  "\<not> c_open c \<Longrightarrow>
     fst (ConsoleAdapter_Close (c, out)) = None \<and> fst (snd (ConsoleAdapter_Close (c, out))) = c"
  "\<not> s_open s \<Longrightarrow> SerialAdapter_Close s = (None, s)"
  "USBAdapterStub_Close stub = (None, stub)"
  by (simp_all add: NetworkAdapter_Close_def USBAdapter_Close_def WindowsPrinter_Close_def
      ConsoleAdapter_Close_def SerialAdapter_Close_def USBAdapterStub_Close_def)

text \<open>
  The spooler adapter has no such test: whatever the handle it holds, \<open>Open\<close> calls
  \<open>OpenPrinterW\<close>, returns its failure, or overwrites the handle with the new one.
\<close>

lemma WindowsPrinter_Open_unguarded:
  "CHR 0x00 \<notin> set (name wp) \<Longrightarrow>
   WindowsPrinter_Open api (wp, w) =
     (case OpenPrinterW api (name wp) w of
        (Inl e1, w') \<Rightarrow> (Some (errorString (''OpenPrinterW failed: '' @ Error e1)), (wp, w'))
      | (Inr h, w') \<Rightarrow> (None, (wp\<lparr>handle := h\<rparr>, w')))"
  by (simp add: WindowsPrinter_Open_def UTF16PtrFromString_def)

text \<open>
  C6 asks that a second \<open>Open\<close> be a no-op that acquires nothing. On the simulated
  spooler, the spooler adapter for the printer POS: the first \<open>Open\<close> gets handle 1 and
  the adapter is open; a second \<open>Open\<close> gets a second handle, 2, and forgets handle 1;
  \<open>Close\<close> then closes handle 2 only, and handle 1 stays open in the spooler.
\<close>

theorem WindowsPrinter_Open_twice:
  "WindowsPrinter_Open sim_winspool
     (NewWindowsPrinter ''POS'', \<lparr>issued = 0, live = [], printed = []\<rparr>)
   = (None, (\<lparr>handle = 1, name = ''POS''\<rparr>, \<lparr>issued = 1, live = [1], printed = []\<rparr>))
   \<and> WindowsPrinter_IsOpen
       (\<lparr>handle = 1, name = ''POS''\<rparr>, \<lparr>issued = 1, live = [1], printed = []\<rparr>)
   = (True, (\<lparr>handle = 1, name = ''POS''\<rparr>, \<lparr>issued = 1, live = [1], printed = []\<rparr>))
   \<and> WindowsPrinter_Open sim_winspool
     (\<lparr>handle = 1, name = ''POS''\<rparr>, \<lparr>issued = 1, live = [1], printed = []\<rparr>)
   = (None, (\<lparr>handle = 2, name = ''POS''\<rparr>, \<lparr>issued = 2, live = [1, 2], printed = []\<rparr>))
   \<and> WindowsPrinter_Close sim_winspool
     (\<lparr>handle = 2, name = ''POS''\<rparr>, \<lparr>issued = 2, live = [1, 2], printed = []\<rparr>)
   = (None, (\<lparr>handle = 0, name = ''POS''\<rparr>, \<lparr>issued = 2, live = [1], printed = []\<rparr>))"
  by (simp add: WindowsPrinter_Open_def WindowsPrinter_Close_def WindowsPrinter_IsOpen_def
      NewWindowsPrinter_def UTF16PtrFromString_def sim_winspool_def)

text \<open>
  C8. On every adapter (console, network, USB, spooler, serial, and the USB stub of
  builds without cgo), for every payload: \<open>Write\<close> on an adapter that is not open
  returns an error that says so, and leaves the adapter and the outside world exactly as
  they were: nothing is sent, nothing is opened, and \<open>IsOpen\<close> is still false.
\<close>

theorem Write_requires_open:
  "(\<not> c_open c \<longrightarrow>
      ConsoleAdapter_Write data (c, out) = (Some (errorString ''adapter not open''), (c, out))
      \<and> fst (ConsoleAdapter_IsOpen (snd (ConsoleAdapter_Write data (c, out)))) = False)
   \<and> (\<not> n_open n \<longrightarrow>
      NetworkAdapter_Write napi data (n, nw) = (Some (errorString ''adapter not open''), (n, nw))
      \<and> fst (NetworkAdapter_IsOpen (snd (NetworkAdapter_Write napi data (n, nw)))) = False)
   \<and> (\<not> u_open u \<longrightarrow>
      USBAdapter_Write uapi data (u, uw) = (Some (errorString ''adapter not open''), (u, uw))
      \<and> fst (USBAdapter_IsOpen (snd (USBAdapter_Write uapi data (u, uw)))) = False)
   \<and> (handle wp = 0 \<longrightarrow>
      WindowsPrinter_Write wapi data (wp, ww) = (Some (errorString ''printer not open''), (wp, ww))
      \<and> fst (WindowsPrinter_IsOpen (snd (WindowsPrinter_Write wapi data (wp, ww)))) = False)
   \<and> (\<not> s_open s \<longrightarrow>
      SerialAdapter_Write data s = (Some (errorString ''adapter not open''), s)
      \<and> fst (SerialAdapter_IsOpen (snd (SerialAdapter_Write data s))) = False)
   \<and> USBAdapterStub_Write data stub = (Some (errorString ''USB adapter not available''), stub)
   \<and> fst (USBAdapterStub_IsOpen (snd (USBAdapterStub_Write data stub))) = False"
  by (simp add: ConsoleAdapter_Write_def ConsoleAdapter_IsOpen_def
      NetworkAdapter_Write_def NetworkAdapter_IsOpen_def
      USBAdapter_Write_def USBAdapter_IsOpen_def
      WindowsPrinter_Write_def WindowsPrinter_IsOpen_def
      SerialAdapter_Write_def SerialAdapter_IsOpen_def
      USBAdapterStub_Write_def USBAdapterStub_IsOpen_def)

theorem Write_requires_open_witness:
  "\<not> c_open NewConsoleAdapter
   \<and> ConsoleAdapter_Write [0x1b, 0x40] (NewConsoleAdapter, [])
       = (Some (errorString ''adapter not open''), (NewConsoleAdapter, []))
   \<and> \<not> n_open (NewNetworkAdapter ''10.0.0.5'' 0)
   \<and> NetworkAdapter_Write down_net [0x1b, 0x40] (NewNetworkAdapter ''10.0.0.5'' 0, ())
       = (Some (errorString ''adapter not open''), (NewNetworkAdapter ''10.0.0.5'' 0, ()))
   \<and> \<not> u_open (NewUSBAdapter 0 0)
   \<and> USBAdapter_Write empty_bus [0x1b, 0x40] (NewUSBAdapter 0 0, ())
       = (Some (errorString ''adapter not open''), (NewUSBAdapter 0 0, ()))
   \<and> handle (NewWindowsPrinter ''POS'') = 0
   \<and> WindowsPrinter_Write sim_winspool [0x1b, 0x40]
         (NewWindowsPrinter ''POS'', \<lparr>issued = 0, live = [], printed = []\<rparr>)
       = (Some (errorString ''printer not open''),
          (NewWindowsPrinter ''POS'', \<lparr>issued = 0, live = [], printed = []\<rparr>))
   \<and> \<not> s_open (NewSerialAdapter ''COM1'' 0)
   \<and> SerialAdapter_Write [0x1b, 0x40] (NewSerialAdapter ''COM1'' 0)
       = (Some (errorString ''adapter not open''), NewSerialAdapter ''COM1'' 0)"
  using Write_requires_open [of NewConsoleAdapter "[0x1b, 0x40]" "[]"
      "NewNetworkAdapter ''10.0.0.5'' 0" down_net "()"
      "NewUSBAdapter 0 0" empty_bus "()"
      "NewWindowsPrinter ''POS''" sim_winspool "\<lparr>issued = 0, live = [], printed = []\<rparr>"
      "NewSerialAdapter ''COM1'' 0"]
  by (simp add: NewConsoleAdapter_def NewNetworkAdapter_def NewUSBAdapter_def
      NewWindowsPrinter_def NewSerialAdapter_def)

end
